theory Spec2Isabelle
  imports Complex_Main "HOL-Library.Word"
begin

section \<open>Key orchestration of the prvt command line (cmd/zz-keys.go)\<close>

text \<open>
  The Go file \<^verbatim>\<open>cmd/zz-keys.go\<close> creates info files, adds keys to them, unlocks them and
  upgrades them. It is embedded function by function. A function that receives the
  \<^verbatim>\<open>*infofile.InfoFile\<close> pointer returns, in the model, the info file as the call leaves it.
  The packages \<^verbatim>\<open>infofile\<close>, \<^verbatim>\<open>crypto\<close> and \<^verbatim>\<open>keys\<close> and the libraries the file calls are
  not part of the sources at hand: primitives are fields of the record \<open>env\<close>, and the few
  helpers whose behaviour a property depends on are modelled from the specification.
\<close>

subsection \<open>Data model\<close>

type_synonym bytes = "8 word list"

text \<open>A Go \<^verbatim>\<open>error\<close> value, as built by \<^verbatim>\<open>errors.New\<close> or returned by a collaborator.\<close>

datatype error = Error string

text \<open>
  Modelled from the spec: the entry type of \<^verbatim>\<open>info.Keys\<close> is declared in the package
  \<^verbatim>\<open>infofile\<close>. The specification gives it as a tagged variant: a passphrase entry with
  salt, confirmation hash and wrapped master key, or an asymmetric entry with recipient id
  and wrapped master key.
\<close>

datatype KeyEntry =
    PassphraseEntry bytes bytes bytes
  | AsymmetricEntry string bytes

text \<open>
  The source reads the field \<^verbatim>\<open>k.GPGKey\<close> of every entry; an entry without a recipient has
  the zero value of a Go string there.
\<close>

fun GPGKey :: "KeyEntry \<Rightarrow> string" where
  "GPGKey (AsymmetricEntry recipient _) = recipient"
| "GPGKey (PassphraseEntry _ _ _) = ''''"

text \<open>
  Modelled from the spec: the struct \<^verbatim>\<open>infofile.InfoFile\<close>, with the fields the source
  reads and writes. A nil byte slice and an empty one are both the empty list: the source
  only takes their length and compares their contents.
\<close>

record InfoFile =
  Version :: int
  Salt :: bytes
  ConfirmationHash :: bytes
  Keys :: "KeyEntry list"

text \<open>
  The collaborators. Sources of fresh values (the prompt, the salt and key generators) are
  streams indexed by the number of calls made so far, which the record \<open>world\<close> counts.
\<close>

record env =
  promptui_Run :: "(string \<Rightarrow> error option) \<Rightarrow> nat \<Rightarrow> error + string"
  NewSalt_src :: "nat \<Rightarrow> error + bytes"
  NewKey_src :: "nat \<Rightarrow> error + bytes"
  KeyFromPassphrase :: "string \<Rightarrow> bytes \<Rightarrow> error + (bytes \<times> bytes)"
  WrapKey :: "bytes \<Rightarrow> bytes \<Rightarrow> error + bytes"
  UnwrapKey :: "bytes \<Rightarrow> bytes \<Rightarrow> error + bytes"
  GPGEncrypt :: "bytes \<Rightarrow> string \<Rightarrow> error + bytes"
  GPGDecrypt :: "bytes \<Rightarrow> error + bytes"
  infofile_New_fails :: "error option"
  AddPassphrase_rejects :: "InfoFile \<Rightarrow> bytes \<Rightarrow> bytes \<Rightarrow> bytes \<Rightarrow> error option"
  AddGPGWrappedKey_rejects :: "InfoFile \<Rightarrow> string \<Rightarrow> bytes \<Rightarrow> error option"
  unicode_ToLower :: "string \<Rightarrow> string"
  passphrase_keyId :: "nat \<Rightarrow> KeyEntry \<Rightarrow> string"

record world =
  prompt_calls :: nat
  salt_calls :: nat
  key_calls :: nat

subsection \<open>Library functions the source calls\<close>

text \<open>\<^verbatim>\<open>subtle.ConstantTimeCompare\<close>: 1 if the two slices have equal contents, 0 otherwise.\<close>

definition ConstantTimeCompare :: "bytes \<Rightarrow> bytes \<Rightarrow> int" where
  "ConstantTimeCompare x y = (if x = y then 1 else 0)"

text \<open>
  \<^verbatim>\<open>strings.ToLower\<close>: on a string of ASCII bytes only, every byte from \<^verbatim>\<open>'A'\<close> to \<^verbatim>\<open>'Z'\<close> gets
  \<^verbatim>\<open>'a' - 'A'\<close> added; any other string goes through the Unicode tables, a parameter here.
\<close>

definition isUpperASCII :: "char \<Rightarrow> bool" where
  "isUpperASCII c = (65 \<le> (of_char c :: nat) \<and> (of_char c :: nat) \<le> 90)"

definition lowerASCII :: "char \<Rightarrow> char" where
  "lowerASCII c = (if isUpperASCII c then char_of ((of_char c :: nat) + 32) else c)"

definition isASCII :: "string \<Rightarrow> bool" where
  "isASCII s = list_all (\<lambda>c. (of_char c :: nat) < 128) s"

definition ToLower :: "env \<Rightarrow> string \<Rightarrow> string" where
  "ToLower e s = (if isASCII s then map lowerASCII s else unicode_ToLower e s)"

text \<open>Two strings are equal up to ASCII case: same length, and bytewise equal or the two
  cases of one ASCII letter.\<close>

definition eqFoldASCII :: "string \<Rightarrow> string \<Rightarrow> bool" where
  "eqFoldASCII s t =
     list_all2 (\<lambda>c d. c = d \<or> (isUpperASCII c \<and> d = lowerASCII c)
                          \<or> (isUpperASCII d \<and> c = lowerASCII d)) s t"

text \<open>The Unicode tables lower-case an ASCII letter as the ASCII path does and never turn
  two strings that differ in ASCII case only into different strings.\<close>

definition respectsASCIIFold :: "(string \<Rightarrow> string) \<Rightarrow> bool" where
  "respectsASCIIFold f = (\<forall>s t. eqFoldASCII s t \<longrightarrow> f s = f t)"

subsection \<open>Prompt and generators\<close>

text \<open>The \<^verbatim>\<open>Validate\<close> callback of the prompt.\<close>

definition Validate :: "string \<Rightarrow> error option" where
  "Validate input =
     (if length input < 1 then Some (Error ''Passphrase must not be empty'') else None)"

definition PromptPassphrase :: "env \<Rightarrow> world \<Rightarrow> (error + string) \<times> world" where
  "PromptPassphrase e w =
     (case promptui_Run e Validate (prompt_calls w) of
        Inl err \<Rightarrow> (Inl err, w\<lparr>prompt_calls := Suc (prompt_calls w)\<rparr>)
      | Inr key \<Rightarrow> (Inr key, w\<lparr>prompt_calls := Suc (prompt_calls w)\<rparr>))"

definition NewSalt :: "env \<Rightarrow> world \<Rightarrow> (error + bytes) \<times> world" where
  "NewSalt e w = (NewSalt_src e (salt_calls w), w\<lparr>salt_calls := Suc (salt_calls w)\<rparr>)"

definition NewKey :: "env \<Rightarrow> world \<Rightarrow> (error + bytes) \<times> world" where
  "NewKey e w = (NewKey_src e (key_calls w), w\<lparr>key_calls := Suc (key_calls w)\<rparr>)"

subsection \<open>Helpers of the packages infofile and keys\<close>

text \<open>
  Modelled from the spec: \<^verbatim>\<open>infofile.New\<close> is not in the sources. It gives a fresh info file
  at the current format version with an empty key list, or fails.
\<close>

definition infofile_New :: "env \<Rightarrow> error + InfoFile" where
  "infofile_New e =
     (case infofile_New_fails e of
        Some err \<Rightarrow> Inl err
      | None \<Rightarrow> Inr \<lparr>Version = 3, Salt = [], ConfirmationHash = [], Keys = []\<rparr>)"

text \<open>
  Modelled from the spec: \<^verbatim>\<open>InfoFile.AddPassphrase\<close> and \<^verbatim>\<open>InfoFile.AddGPGWrappedKey\<close> are
  not in the sources. They append the entry to the key list; which arguments they refuse
  is left to the environment, and a refused call leaves the info file as it was.
\<close>

definition AddPassphrase ::
  "env \<Rightarrow> InfoFile \<Rightarrow> bytes \<Rightarrow> bytes \<Rightarrow> bytes \<Rightarrow> error option \<times> InfoFile" where
  "AddPassphrase e info salt confirmationHash wrappedKey =
     (case AddPassphrase_rejects e info salt confirmationHash wrappedKey of
        Some err \<Rightarrow> (Some err, info)
      | None \<Rightarrow>
          (None, info\<lparr>Keys := Keys info @ [PassphraseEntry salt confirmationHash wrappedKey]\<rparr>))"

definition AddGPGWrappedKey ::
  "env \<Rightarrow> InfoFile \<Rightarrow> string \<Rightarrow> bytes \<Rightarrow> error option \<times> InfoFile" where
  "AddGPGWrappedKey e info gpgKey wrappedKey =
     (case AddGPGWrappedKey_rejects e info gpgKey wrappedKey of
        Some err \<Rightarrow> (Some err, info)
      | None \<Rightarrow> (None, info\<lparr>Keys := Keys info @ [AsymmetricEntry gpgKey wrappedKey]\<rparr>))"

text \<open>
  Modelled from the spec: \<^verbatim>\<open>keys.GetMasterKeyWithGPG\<close> is not in the sources. It tries every
  asymmetric entry in list order; the first one whose wrapping can be reversed wins and is
  returned with the entry's recipient id. No entry matching is the error of invalid
  credentials.
\<close>

fun firstGPG :: "env \<Rightarrow> KeyEntry list \<Rightarrow> (bytes \<times> string) option" where
  "firstGPG e [] = None"
| "firstGPG e (AsymmetricEntry recipient blob # ks) =
     (case GPGDecrypt e blob of
        Inr masterKey \<Rightarrow> Some (masterKey, recipient)
      | Inl _ \<Rightarrow> firstGPG e ks)"
| "firstGPG e (PassphraseEntry _ _ _ # ks) = firstGPG e ks"

definition GetMasterKeyWithGPG ::
  "env \<Rightarrow> InfoFile \<Rightarrow> bytes \<times> string \<times> string \<times> error option" where
  "GetMasterKeyWithGPG e info =
     (case firstGPG e (Keys info) of
        Some (masterKey, keyId) \<Rightarrow> (masterKey, keyId, '''', None)
      | None \<Rightarrow> ([], '''', ''Cannot unlock the repository'', Some (Error ''InvalidCredentials'')))"

text \<open>
  Modelled from the spec: \<^verbatim>\<open>keys.GetMasterKeyWithPassphrase\<close> is not in the sources. For
  every passphrase entry it derives wrapping key and hash from the passphrase and the
  entry's salt and compares the hash with the entry's in constant time; on a mismatch it
  skips the entry without unwrapping, on a match it unwraps and returns. A failing
  primitive ends the operation. The id returned with the key (entry index or salt) is left
  to the environment.
\<close>

definition tryPassphraseEntry ::
  "env \<Rightarrow> string \<Rightarrow> bytes \<Rightarrow> bytes \<Rightarrow> bytes \<Rightarrow> (error + bytes) option" where
  "tryPassphraseEntry e passphrase salt confirmationHash wrappedKey =
     (case KeyFromPassphrase e passphrase salt of
        Inl err \<Rightarrow> Some (Inl err)
      | Inr (wrappingKey, candidateHash) \<Rightarrow>
          if ConstantTimeCompare confirmationHash candidateHash = 0 then None
          else Some (UnwrapKey e wrappingKey wrappedKey))"

fun firstPassphrase ::
  "env \<Rightarrow> string \<Rightarrow> nat \<Rightarrow> KeyEntry list \<Rightarrow> bytes \<times> string \<times> string \<times> error option" where
  "firstPassphrase e passphrase i [] =
     ([], '''', ''Cannot unlock the repository'', Some (Error ''InvalidCredentials''))"
| "firstPassphrase e passphrase i (AsymmetricEntry recipient blob # ks) =
     firstPassphrase e passphrase (Suc i) ks"
| "firstPassphrase e passphrase i (PassphraseEntry salt confirmationHash wrappedKey # ks) =
     (case tryPassphraseEntry e passphrase salt confirmationHash wrappedKey of
        None \<Rightarrow> firstPassphrase e passphrase (Suc i) ks
      | Some (Inl err) \<Rightarrow> ([], '''', ''Error while unlocking the repository'', Some err)
      | Some (Inr masterKey) \<Rightarrow>
          (masterKey,
           passphrase_keyId e i (PassphraseEntry salt confirmationHash wrappedKey),
           '''', None))"

definition GetMasterKeyWithPassphrase ::
  "env \<Rightarrow> InfoFile \<Rightarrow> string \<Rightarrow> bytes \<times> string \<times> string \<times> error option" where
  "GetMasterKeyWithPassphrase e info passphrase = firstPassphrase e passphrase 0 (Keys info)"

subsection \<open>The functions of cmd/zz-keys.go\<close>

text \<open>\<^verbatim>\<open>upgradeInfoFileV1\<close>: passphrases of a version 1 info file are migrated into the key
  list; GPG keys are there already.\<close>

definition upgradeInfoFileV1 ::
  "env \<Rightarrow> InfoFile \<Rightarrow> world \<Rightarrow> (string \<times> error option) \<times> InfoFile \<times> world" where
  "upgradeInfoFileV1 e info w =
     (if length (Salt info) > 0 \<and> length (ConfirmationHash info) > 0 then
        (case PromptPassphrase e w of
           (Inl err, w1) \<Rightarrow> ((''Error getting passphrase'', Some err), info, w1)
         | (Inr passphrase, w1) \<Rightarrow>
        (case KeyFromPassphrase e passphrase (Salt info) of
           Inl err \<Rightarrow>
             ((''Cannot unlock the repository'', Some (Error ''Invalid passphrase'')), info, w1)
         | Inr (masterKey, confirmationHash) \<Rightarrow>
        if ConstantTimeCompare (ConfirmationHash info) confirmationHash = 0 then
          ((''Cannot unlock the repository'', Some (Error ''Invalid passphrase'')), info, w1)
        else
        (case NewSalt e w1 of
           (Inl err, w2) \<Rightarrow> ((''Error generating a new salt'', Some err), info, w2)
         | (Inr newSalt, w2) \<Rightarrow>
        (case KeyFromPassphrase e passphrase newSalt of
           Inl err \<Rightarrow> ((''Error deriving the wrapping key'', Some err), info, w2)
         | Inr (wrappingKey, newConfirmationHash) \<Rightarrow>
        (case WrapKey e wrappingKey masterKey of
           Inl err \<Rightarrow> ((''Error wrapping the master key'', Some err), info, w2)
         | Inr wrappedKey \<Rightarrow>
        (case AddPassphrase e info newSalt newConfirmationHash wrappedKey of
           (Some err, info1) \<Rightarrow> ((''Error adding the key'', Some err), info1, w2)
         | (None, info1) \<Rightarrow>
             (('''', None), info1\<lparr>Salt := [], ConfirmationHash := []\<rparr>, w2)))))))
      else (('''', None), info, w))"

text \<open>\<^verbatim>\<open>UpgradeInfoFile\<close>: only versions 1 and 2 can be upgraded; the version is set to 3 at
  the end.\<close>

definition UpgradeInfoFile ::
  "env \<Rightarrow> InfoFile \<Rightarrow> world \<Rightarrow> (string \<times> error option) \<times> InfoFile \<times> world" where
  "UpgradeInfoFile e info w =
     (if Version info \<noteq> 1 \<and> Version info \<noteq> 2 then
        ((''Unsupported repository version'',
          Some (Error ''This repository has already been upgraded or is using an unsupported version'')),
         info, w)
      else
        (case (if Version info < 2 then upgradeInfoFileV1 e info w else (('''', None), info, w)) of
           ((errMessage, Some err), info1, w1) \<Rightarrow> ((errMessage, Some err), info1, w1)
         | ((errMessage, None), info1, w1) \<Rightarrow> (('''', None), info1\<lparr>Version := 3\<rparr>, w1)))"

text \<open>\<^verbatim>\<open>addKeyPassphrase\<close>, \<^verbatim>\<open>addKeyGPG\<close> and \<^verbatim>\<open>AddKey\<close>.\<close>

definition addKeyPassphrase ::
  "env \<Rightarrow> InfoFile \<Rightarrow> bytes \<Rightarrow> world \<Rightarrow> (string \<times> error option) \<times> InfoFile \<times> world" where
  "addKeyPassphrase e info masterKey w =
     (case PromptPassphrase e w of
        (Inl err, w1) \<Rightarrow> ((''Error getting passphrase'', Some err), info, w1)
      | (Inr passphrase, w1) \<Rightarrow>
     (case GetMasterKeyWithPassphrase e info passphrase of
        (_, _, _, None) \<Rightarrow>
          ((''Key already added'',
            Some (Error ''This passphrase has already been added to the repository'')), info, w1)
      | (_, _, _, Some testErr) \<Rightarrow>
     (case NewSalt e w1 of
        (Inl err, w2) \<Rightarrow> ((''Error generating a new salt'', Some err), info, w2)
      | (Inr salt, w2) \<Rightarrow>
     (case KeyFromPassphrase e passphrase salt of
        Inl err \<Rightarrow> ((''Error deriving the wrapping key'', Some err), info, w2)
      | Inr (wrappingKey, confirmationHash) \<Rightarrow>
     (case WrapKey e wrappingKey masterKey of
        Inl err \<Rightarrow> ((''Error wrapping the master key'', Some err), info, w2)
      | Inr wrappedKey \<Rightarrow>
     (case AddPassphrase e info salt confirmationHash wrappedKey of
        (Some err, info1) \<Rightarrow> ((''Error adding the key'', Some err), info1, w2)
      | (None, info1) \<Rightarrow> (('''', None), info1, w2)))))))"

definition addKeyGPG ::
  "env \<Rightarrow> InfoFile \<Rightarrow> bytes \<Rightarrow> string \<Rightarrow> world \<Rightarrow> (string \<times> error option) \<times> InfoFile \<times> world" where
  "addKeyGPG e info masterKey gpgKey w =
     (case GPGEncrypt e masterKey gpgKey of
        Inl err \<Rightarrow> ((''Error encrypting the master key with GPG'', Some err), info, w)
      | Inr wrappedKey \<Rightarrow>
     (case AddGPGWrappedKey e info gpgKey wrappedKey of
        (Some err, info1) \<Rightarrow> ((''Error adding the key'', Some err), info1, w)
      | (None, info1) \<Rightarrow> (('''', None), info1, w)))"

definition AddKey ::
  "env \<Rightarrow> InfoFile \<Rightarrow> bytes \<Rightarrow> string \<Rightarrow> world \<Rightarrow> (string \<times> error option) \<times> InfoFile \<times> world" where
  "AddKey e info masterKey gpgKey w =
     (if gpgKey = '''' then addKeyPassphrase e info masterKey w
      else
        (let keyId = ToLower e gpgKey in
         if list_ex (\<lambda>k. ToLower e (GPGKey k) = keyId) (Keys info) then
           ((''Key already added'',
             Some (Error ''This GPG key has already been added to the repository'')), info, w)
         else addKeyGPG e info masterKey gpgKey w))"

text \<open>\<^verbatim>\<open>NewInfoFile\<close>: the result is the info file (or nil), the error message and the error.\<close>

definition NewInfoFile ::
  "env \<Rightarrow> string \<Rightarrow> world \<Rightarrow> (InfoFile option \<times> string \<times> error option) \<times> world" where
  "NewInfoFile e gpgKey w =
     (case infofile_New e of
        Inl err \<Rightarrow> ((None, ''Error creating info file'', Some err), w)
      | Inr info \<Rightarrow>
     (case NewKey e w of
        (Inl err, w1) \<Rightarrow> ((None, ''Error generating the master key'', Some err), w1)
      | (Inr masterKey, w1) \<Rightarrow>
     (case AddKey e info masterKey gpgKey w1 of
        ((errMessage, err), info1, w2) \<Rightarrow>
          ((if err \<noteq> None then None else Some info1, '''', None), w2))))"

text \<open>\<^verbatim>\<open>GetMasterKey\<close>: GPG first, then one prompt and the passphrase entries.\<close>

definition GetMasterKey ::
  "env \<Rightarrow> InfoFile \<Rightarrow> world \<Rightarrow> (bytes \<times> string \<times> string \<times> error option) \<times> InfoFile \<times> world" where
  "GetMasterKey e info w =
     (case GetMasterKeyWithGPG e info of
        (masterKey, keyId, errMessage, None) \<Rightarrow> ((masterKey, keyId, errMessage, None), info, w)
      | (_, _, _, Some gpgErr) \<Rightarrow>
     (case PromptPassphrase e w of
        (Inl err, w1) \<Rightarrow> (([], '''', ''Error getting passphrase'', Some err), info, w1)
      | (Inr passphrase, w1) \<Rightarrow> (GetMasterKeyWithPassphrase e info passphrase, info, w1)))"

section \<open>The unlock request handler of the sandboxed build\<close>

text \<open>
  The JavaScript handler for \<^verbatim>\<open>/api/repo/unlock\<close> in Wasm mode. Its input is what
  \<^verbatim>\<open>await req.json()\<close> gives: a parsed JSON value, or an exception when the body does not
  parse. Its effects are collected in the record \<open>sandbox\<close>: the three stores it assigns,
  the arguments of every call of \<^verbatim>\<open>Prvt.unlock\<close>, and the messages whose broadcast it
  schedules with \<^verbatim>\<open>setTimeout\<close>.
\<close>

subsection \<open>JavaScript values\<close>

text \<open>The values \<^verbatim>\<open>JSON.parse\<close> builds, and \<^verbatim>\<open>undefined\<close>. A number is the rational it
  denotes; of a number the handler only asks whether it is zero.\<close>

datatype jsval =
    JUndefined
  | JNull
  | JBool bool
  | JNum rat
  | JStr string
  | JArr "jsval list"
  | JObj "(string \<times> jsval) list"

datatype jsexn = TypeError | Err string | Thrown jsval

datatype response = JSONResponse jsval

text \<open>The functions the Wasm module exports to the page, and the rendering of numbers.\<close>

record host =
  Prvt_unlock :: "jsval \<Rightarrow> jsexn + jsval"
  Prvt_getIndex :: "jsval \<Rightarrow> jsexn + jsval"
  Number_toString :: "rat \<Rightarrow> string"

record sandbox =
  stores_masterKey :: jsval
  stores_keyId :: jsval
  stores_index :: jsval
  unlock_calls :: "jsval list"
  broadcasts :: "jsval list"

text \<open>The operand of \<^verbatim>\<open>!\<close>: every value is truthy but \<^verbatim>\<open>undefined\<close>, \<^verbatim>\<open>null\<close>, \<^verbatim>\<open>false\<close>,
  zero and the empty string.\<close>

fun truthy :: "jsval \<Rightarrow> bool" where
  "truthy JUndefined = False"
| "truthy JNull = False"
| "truthy (JBool b) = b"
| "truthy (JNum n) = (n \<noteq> 0)"
| "truthy (JStr s) = (s \<noteq> [])"
| "truthy (JArr _) = True"
| "truthy (JObj _) = True"

text \<open>
  Reading a property, for the four names the handler reads (\<^verbatim>\<open>type\<close>, \<^verbatim>\<open>passphrase\<close>,
  \<^verbatim>\<open>masterKey\<close>, \<^verbatim>\<open>keyId\<close>), none of which a prototype defines: of \<^verbatim>\<open>undefined\<close> and \<^verbatim>\<open>null\<close>
  it throws, of an object it gives the member (the last one of that name), of anything
  else \<^verbatim>\<open>undefined\<close>.
\<close>

fun getProp :: "jsval \<Rightarrow> string \<Rightarrow> jsexn + jsval" where
  "getProp JUndefined name = Inl TypeError"
| "getProp JNull name = Inl TypeError"
| "getProp (JObj members) name =
     (case map_of (rev members) name of None \<Rightarrow> Inr JUndefined | Some v \<Rightarrow> Inr v)"
| "getProp _ name = Inr JUndefined"

text \<open>
  Conversion to a string. An array is the join of its elements with commas, in which
  \<^verbatim>\<open>undefined\<close> and \<^verbatim>\<open>null\<close> are empty; an object is \<^verbatim>\<open>[object Object]\<close>, unless a member
  named \<^verbatim>\<open>toString\<close> hides the inherited method, and then the conversion throws.
\<close>

fun ToString :: "(rat \<Rightarrow> string) \<Rightarrow> jsval \<Rightarrow> jsexn + string"
  and join :: "(rat \<Rightarrow> string) \<Rightarrow> jsval list \<Rightarrow> jsexn + string" where
  "ToString nts JUndefined = Inr ''undefined''"
| "ToString nts JNull = Inr ''null''"
| "ToString nts (JBool b) = Inr (if b then ''true'' else ''false'')"
| "ToString nts (JNum n) = Inr (nts n)"
| "ToString nts (JStr s) = Inr s"
| "ToString nts (JArr elems) = join nts elems"
| "ToString nts (JObj members) =
     (if ''toString'' \<in> fst ` set members then Inl TypeError else Inr ''[object Object]'')"
| "join nts [] = Inr ''''"
| "join nts (v # vs) =
     (case (if v = JUndefined \<or> v = JNull then Inr '''' else ToString nts v) of
        Inl ex \<Rightarrow> Inl ex
      | Inr s \<Rightarrow>
          (if vs = [] then Inr s
           else (case join nts vs of Inl ex \<Rightarrow> Inl ex | Inr r \<Rightarrow> Inr (s @ '','' @ r))))"

text \<open>
  The comparison \<^verbatim>\<open>v == 'passphrase'\<close>. \<^verbatim>\<open>undefined\<close> and \<^verbatim>\<open>null\<close> equal no string; a boolean
  or a number is compared with the number the string denotes, which \<^verbatim>\<open>'passphrase'\<close> does
  not; a string is compared as such; an array or an object is converted to a string first.
\<close>

fun looseEqualsPassphrase :: "(rat \<Rightarrow> string) \<Rightarrow> jsval \<Rightarrow> jsexn + bool" where
  "looseEqualsPassphrase nts JUndefined = Inr False"
| "looseEqualsPassphrase nts JNull = Inr False"
| "looseEqualsPassphrase nts (JBool b) = Inr False"
| "looseEqualsPassphrase nts (JNum n) = Inr False"
| "looseEqualsPassphrase nts (JStr s) = Inr (s = ''passphrase'')"
| "looseEqualsPassphrase nts v =
     (case ToString nts v of Inl ex \<Rightarrow> Inl ex | Inr s \<Rightarrow> Inr (s = ''passphrase''))"

subsection \<open>The handler\<close>

text \<open>The condition \<^verbatim>\<open>!data || data.type != 'passphrase' || !data.passphrase\<close>, evaluated
  from left to right.\<close>

definition rejectsRequest :: "host \<Rightarrow> jsval \<Rightarrow> jsexn + bool" where
  "rejectsRequest h data =
     (if \<not> truthy data then Inr True
      else
        (case getProp data ''type'' of
           Inl ex \<Rightarrow> Inl ex
         | Inr t \<Rightarrow>
        (case looseEqualsPassphrase (Number_toString h) t of
           Inl ex \<Rightarrow> Inl ex
         | Inr eq \<Rightarrow>
             if \<not> eq then Inr True
             else (case getProp data ''passphrase'' of
                     Inl ex \<Rightarrow> Inl ex
                   | Inr p \<Rightarrow> Inr (\<not> truthy p)))))"

text \<open>The condition \<^verbatim>\<open>!result || !result.masterKey || !result.keyId\<close>.\<close>

definition invalidResult :: "jsval \<Rightarrow> jsexn + bool" where
  "invalidResult result =
     (if \<not> truthy result then Inr True
      else
        (case getProp result ''masterKey'' of
           Inl ex \<Rightarrow> Inl ex
         | Inr mk \<Rightarrow>
             if \<not> truthy mk then Inr True
             else (case getProp result ''keyId'' of
                     Inl ex \<Rightarrow> Inl ex
                   | Inr kid \<Rightarrow> Inr (\<not> truthy kid))))"

text \<open>The handler: \<open>Inr None\<close> is the return without a value, \<open>Inl\<close> a rejection.\<close>

definition unlockHandler ::
  "host \<Rightarrow> jsexn + jsval \<Rightarrow> sandbox \<Rightarrow> (jsexn + response option) \<times> sandbox" where
  "unlockHandler h req_json st =
     (case req_json of
        Inl ex \<Rightarrow> (Inl ex, st)
      | Inr data \<Rightarrow>
     (case rejectsRequest h data of
        Inl ex \<Rightarrow> (Inl ex, st)
      | Inr True \<Rightarrow> (Inr None, st)
      | Inr False \<Rightarrow>
     (case getProp data ''passphrase'' of
        Inl ex \<Rightarrow> (Inl ex, st)
      | Inr passphrase \<Rightarrow>
     (let st1 = st\<lparr>unlock_calls := unlock_calls st @ [passphrase]\<rparr> in
      case Prvt_unlock h passphrase of
        Inl ex \<Rightarrow> (Inl ex, st1)
      | Inr result \<Rightarrow>
     (case invalidResult result of
        Inl ex \<Rightarrow> (Inl ex, st1)
      | Inr True \<Rightarrow> (Inl (Err ''Invalid response''), st1)
      | Inr False \<Rightarrow>
     (case (getProp result ''masterKey'', getProp result ''keyId'') of
        (Inr masterKey, Inr keyId) \<Rightarrow>
          (let st2 = st1\<lparr>stores_masterKey := masterKey, stores_keyId := keyId\<rparr> in
           case Prvt_getIndex h (stores_masterKey st2) of
             Inl ex \<Rightarrow> (Inl ex, st2)
           | Inr index \<Rightarrow>
               (Inr (Some (JSONResponse
                      (JObj [(''keyId'', keyId), (''type'', JStr ''passphrase'')]))),
                st2\<lparr>stores_index := index,
                    broadcasts := broadcasts st2 @ [JObj [(''message'', JStr ''unlocked'')]]\<rparr>))
      | (Inl ex, _) \<Rightarrow> (Inl ex, st1)
      | (_, Inl ex) \<Rightarrow> (Inl ex, st1)))))))"

section \<open>Concrete environments and inputs\<close>

text \<open>A small environment in which every primitive can be computed: the passphrase is
  always \<^verbatim>\<open>secret\<close>, key derivation prepends and appends the length of the passphrase to
  the salt, wrapping prepends the wrapping key, and no GPG secret key is at hand.\<close>

definition toyEnv :: env where
  "toyEnv = \<lparr>
     promptui_Run = (\<lambda>validate n. Inr ''secret''),
     NewSalt_src = (\<lambda>n. Inr [9, 9]),
     NewKey_src = (\<lambda>n. Inr [42]),
     KeyFromPassphrase = (\<lambda>p s. Inr (of_nat (length p) # s, s @ [of_nat (length p)])),
     WrapKey = (\<lambda>wk k. Inr (wk @ k)),
     UnwrapKey = (\<lambda>wk b. if take (length wk) b = wk then Inr (drop (length wk) b)
                          else Inl (Error ''unwrap failed'')),
     GPGEncrypt = (\<lambda>k r. Inr (0 # k)),
     GPGDecrypt = (\<lambda>b. Inl (Error ''no secret key'')),
     infofile_New_fails = None,
     AddPassphrase_rejects = (\<lambda>info s h k. None),
     AddGPGWrappedKey_rejects = (\<lambda>info g k. None),
     unicode_ToLower = map lowerASCII,
     passphrase_keyId = (\<lambda>i k. ''p'')\<rparr>"

text \<open>The same with the secret key of the recipient \<^verbatim>\<open>ABCD\<close> at hand, and the same with a
  prompt the user interrupts.\<close>

definition gpgEnv :: env where
  "gpgEnv = toyEnv\<lparr>GPGDecrypt :=
     (\<lambda>b. if b = [1, 2] then Inr [6, 5] else Inl (Error ''no secret key''))\<rparr>"

definition interruptedEnv :: env where
  "interruptedEnv = toyEnv\<lparr>promptui_Run := (\<lambda>validate n. Inl (Error ''^C''))\<rparr>"

text \<open>The same with a salt generator that returns the bytes of the legacy salt of the
  version 1 info file below.\<close>

definition staleSaltEnv :: env where
  "staleSaltEnv = toyEnv\<lparr>NewSalt_src := (\<lambda>n. Inr [5])\<rparr>"

definition world0 :: world where
  "world0 = \<lparr>prompt_calls = 0, salt_calls = 0, key_calls = 0\<rparr>"

text \<open>A version 1 info file whose legacy passphrase is \<^verbatim>\<open>secret\<close>, a version 3 info file
  with two GPG entries and the passphrase \<^verbatim>\<open>secret\<close>, and an empty version 3 info file.\<close>

definition legacyInfo :: InfoFile where
  "legacyInfo = \<lparr>Version = 1, Salt = [5], ConfirmationHash = [5, 6],
                  Keys = [AsymmetricEntry ''ABCD'' [1, 2]]\<rparr>"

definition gpgInfo :: InfoFile where
  "gpgInfo = \<lparr>Version = 3, Salt = [], ConfirmationHash = [],
               Keys = [AsymmetricEntry ''AAAA'' [7],
                       PassphraseEntry [9, 9] [9, 9, 6] [6, 9, 9, 6, 5],
                       AsymmetricEntry ''ABCD'' [1, 2]]\<rparr>"

definition emptyInfo :: InfoFile where
  "emptyInfo = \<lparr>Version = 3, Salt = [], ConfirmationHash = [], Keys = []\<rparr>"

text \<open>A host whose unlock always succeeds, and a sandbox in which nothing has happened.\<close>

definition toyHost :: host where
  "toyHost = \<lparr>
     Prvt_unlock = (\<lambda>p. Inr (JObj [(''masterKey'', JStr ''k''), (''keyId'', JStr ''id'')])),
     Prvt_getIndex = (\<lambda>k. Inr (JObj [])),
     Number_toString = (\<lambda>n. ''0'')\<rparr>"

definition sandbox0 :: sandbox where
  "sandbox0 = \<lparr>stores_masterKey = JNull, stores_keyId = JNull, stores_index = JNull,
               unlock_calls = [], broadcasts = []\<rparr>"

section \<open>Helper lemmas\<close>

lemma UpgradeInfoFile_outside_1_2:
  "Version info \<noteq> 1 \<Longrightarrow> Version info \<noteq> 2 \<Longrightarrow>
   UpgradeInfoFile e info w =
     ((''Unsupported repository version'',
       Some (Error ''This repository has already been upgraded or is using an unsupported version'')),
      info, w)"
  by (simp add: UpgradeInfoFile_def)

lemma upgradeInfoFileV1_Version:
  "Version (fst (snd (upgradeInfoFileV1 e info w))) = Version info"
  by (simp add: upgradeInfoFileV1_def PromptPassphrase_def NewSalt_def AddPassphrase_def
      split: sum.splits prod.splits option.splits)

lemma addKeyPassphrase_Version:
  "Version (fst (snd (addKeyPassphrase e info mk w))) = Version info"
  by (simp add: addKeyPassphrase_def PromptPassphrase_def NewSalt_def AddPassphrase_def
      split: sum.splits prod.splits option.splits)

lemma addKeyGPG_Version:
  "Version (fst (snd (addKeyGPG e info mk g w))) = Version info"
  by (simp add: addKeyGPG_def AddGPGWrappedKey_def
      split: sum.splits prod.splits option.splits)

text \<open>What a successful run of \<^verbatim>\<open>upgradeInfoFileV1\<close> on populated legacy fields has done.\<close>

lemma upgradeInfoFileV1_success:
  assumes "Salt info \<noteq> []" "ConfirmationHash info \<noteq> []"
    and "upgradeInfoFileV1 e info w = ((msg, None), info', w')"
  shows "\<exists>p mk newSalt wk nh wrapped.
     promptui_Run e Validate (prompt_calls w) = Inr p \<and>
     KeyFromPassphrase e p (Salt info) = Inr (mk, ConfirmationHash info) \<and>
     NewSalt_src e (salt_calls w) = Inr newSalt \<and>
     KeyFromPassphrase e p newSalt = Inr (wk, nh) \<and>
     WrapKey e wk mk = Inr wrapped \<and>
     info' = info\<lparr>Keys := Keys info @ [PassphraseEntry newSalt nh wrapped],
                   Salt := [], ConfirmationHash := []\<rparr> \<and>
     w' = w\<lparr>prompt_calls := Suc (prompt_calls w), salt_calls := Suc (salt_calls w)\<rparr>"
  using assms
  by (auto simp add: upgradeInfoFileV1_def PromptPassphrase_def NewSalt_def AddPassphrase_def
      ConstantTimeCompare_def
      split: sum.splits prod.splits option.splits if_splits)

text \<open>The first asymmetric entry that unwraps is the one \<open>firstGPG\<close> returns.\<close>

lemma firstGPG_first:
  "i < length ks \<Longrightarrow> ks ! i = AsymmetricEntry r b \<Longrightarrow> GPGDecrypt e b = Inr mk \<Longrightarrow>
   (\<forall>j<i. \<forall>r' b'. ks ! j = AsymmetricEntry r' b' \<longrightarrow> isl (GPGDecrypt e b')) \<Longrightarrow>
   firstGPG e ks = Some (mk, r)"
proof (induction ks arbitrary: i)
  case Nil
  then show ?case by simp
next
  case (Cons k ks)
  show ?case
  proof (cases i)
    case 0
    with Cons.prems show ?thesis by simp
  next
    case (Suc n)
    have earlier: "\<forall>j<n. \<forall>r' b'. ks ! j = AsymmetricEntry r' b' \<longrightarrow> isl (GPGDecrypt e b')"
    proof (intro allI impI)
      fix j r' b'
      assume "j < n" and "ks ! j = AsymmetricEntry r' b'"
      then have "Suc j < i" and "(k # ks) ! Suc j = AsymmetricEntry r' b'"
        using Suc by simp_all
      then show "isl (GPGDecrypt e b')"
        using Cons.prems(4) by blast
    qed
    have rest: "firstGPG e ks = Some (mk, r)"
      using Cons.IH [of n] Cons.prems(1,2,3) Suc earlier by simp
    show ?thesis
    proof (cases k)
      case (PassphraseEntry s h wk)
      with rest show ?thesis by simp
    next
      case (AsymmetricEntry r0 b0)
      have "0 < i" using Suc by simp
      then have "isl (GPGDecrypt e b0)"
        using Cons.prems(4) AsymmetricEntry by fastforce
      with rest AsymmetricEntry show ?thesis by (auto simp add: isl_def)
    qed
  qed
qed

lemma firstGPG_none:
  "(\<forall>k\<in>set ks. \<forall>r b. k = AsymmetricEntry r b \<longrightarrow> isl (GPGDecrypt e b)) \<Longrightarrow>
   firstGPG e ks = None"
  by (induction e ks rule: firstGPG.induct) (auto simp add: isl_def)

text \<open>Lower-casing and equality up to ASCII case.\<close>

lemma of_char_lowerASCII:
  "isUpperASCII c \<Longrightarrow> (of_char (lowerASCII c) :: nat) = of_char c + 32"
  by (simp add: lowerASCII_def isUpperASCII_def of_char_of)

lemma lowerASCII_idem: "lowerASCII (lowerASCII c) = lowerASCII c"
proof (cases "isUpperASCII c")
  case True
  then have "\<not> isUpperASCII (lowerASCII c)"
    using of_char_lowerASCII [OF True] by (simp add: isUpperASCII_def)
  then show ?thesis by (simp add: lowerASCII_def)
next
  case False
  then show ?thesis by (simp add: lowerASCII_def)
qed

lemma eqFoldASCII_lower: "eqFoldASCII s t \<Longrightarrow> map lowerASCII s = map lowerASCII t"
  unfolding eqFoldASCII_def
  by (induction s t rule: list_all2_induct) (auto simp add: lowerASCII_idem)

lemma eqFoldASCII_isASCII: "eqFoldASCII s t \<Longrightarrow> isASCII s = isASCII t"
  unfolding eqFoldASCII_def isASCII_def
proof (induction s t rule: list_all2_induct)
  case Nil
  then show ?case by simp
next
  case (Cons c cs d ds)
  have "((of_char c :: nat) < 128) = ((of_char d :: nat) < 128)"
    using Cons(1) of_char_lowerASCII [of c] of_char_lowerASCII [of d]
    by (auto simp add: isUpperASCII_def)
  with Cons show ?case by simp
qed

lemma eqFoldASCII_ToLower:
  "respectsASCIIFold (unicode_ToLower e) \<Longrightarrow> eqFoldASCII s t \<Longrightarrow> ToLower e s = ToLower e t"
  using eqFoldASCII_lower [of s t] eqFoldASCII_isASCII [of s t]
  by (auto simp add: ToLower_def respectsASCIIFold_def)

lemma respectsASCIIFold_lowerASCII: "respectsASCIIFold (map lowerASCII)"
  by (simp add: respectsASCIIFold_def eqFoldASCII_lower)

lemma eqFoldASCII_ABCD: "eqFoldASCII ''ABCD'' ''abcd''"
  by code_simp

lemma ToLower_ABCD_ef01: "ToLower toyEnv ''ABCD'' \<noteq> ToLower toyEnv ''ef01''"
  by code_simp

lemma ToLower_AAAA_ef01: "ToLower toyEnv ''AAAA'' \<noteq> ToLower toyEnv ''ef01''"
  by code_simp

section \<open>Format migration\<close>

text \<open>
  An info file at version 3 is refused by \<^verbatim>\<open>UpgradeInfoFile\<close>: on the empty version 3 info
  file the call returns an error, so it is not true that migration at the terminal version
  never errors.
\<close>

theorem UpgradeInfoFile_version_3_errors:
  "Version emptyInfo = 3 \<and>
   snd (fst (UpgradeInfoFile toyEnv emptyInfo world0)) =
     Some (Error ''This repository has already been upgraded or is using an unsupported version'')"
  by (simp add: UpgradeInfoFile_def emptyInfo_def)

text \<open>
  Claim C1, as amended. \<^verbatim>\<open>UpgradeInfoFile\<close> on an info file already at version 3 is a no-op
  that reports the unsupported version: the call returns the message
  \<^verbatim>\<open>Unsupported repository version\<close> with its error, leaves the info file and the world
  (no prompt, no salt) as they were, and a second call in succession returns the same
  output and again changes nothing.
\<close>

theorem UpgradeInfoFile_version_3_refused_twice:
  assumes "Version info = 3"
  shows "UpgradeInfoFile e info w =
     ((''Unsupported repository version'',
       Some (Error ''This repository has already been upgraded or is using an unsupported version'')),
      info, w) \<and>
   (case UpgradeInfoFile e info w of
      (out1, info1, w1) \<Rightarrow>
        (case UpgradeInfoFile e info1 w1 of
           (out2, info2, w2) \<Rightarrow> out2 = out1 \<and> info2 = info \<and> w2 = w))"
proof -
  have "Version info \<noteq> 1" and "Version info \<noteq> 2"
    using assms by simp_all
  then have "UpgradeInfoFile e info w =
     ((''Unsupported repository version'',
       Some (Error ''This repository has already been upgraded or is using an unsupported version'')),
      info, w)"
    by (rule UpgradeInfoFile_outside_1_2)
  then show ?thesis by simp
qed

theorem UpgradeInfoFile_version_3_refused_twice_witness:
  "Version gpgInfo = 3 \<and>
   UpgradeInfoFile toyEnv gpgInfo world0 =
     ((''Unsupported repository version'',
       Some (Error ''This repository has already been upgraded or is using an unsupported version'')),
      gpgInfo, world0)"
proof -
  have v: "Version gpgInfo = 3"
    by (simp add: gpgInfo_def)
  from UpgradeInfoFile_version_3_refused_twice [OF v, of toyEnv world0] v
  show ?thesis by simp
qed

text \<open>
  Claim C7. For every info file whose version is neither 1 nor 2, \<^verbatim>\<open>UpgradeInfoFile\<close> fails
  with the unsupported-version error and performs no mutation: the info file it leaves is
  the one it was given, field by field, and no prompt or generator has been called.
\<close>

theorem UpgradeInfoFile_unsupported_version:
  "Version info \<noteq> 1 \<Longrightarrow> Version info \<noteq> 2 \<Longrightarrow>
   UpgradeInfoFile e info w =
     ((''Unsupported repository version'',
       Some (Error ''This repository has already been upgraded or is using an unsupported version'')),
      info, w)"
  by (rule UpgradeInfoFile_outside_1_2)

theorem UpgradeInfoFile_unsupported_version_witness:
  "(0::int) \<noteq> 1 \<and> (0::int) \<noteq> 2 \<and>
   UpgradeInfoFile toyEnv (legacyInfo\<lparr>Version := 0\<rparr>) world0 =
     ((''Unsupported repository version'',
       Some (Error ''This repository has already been upgraded or is using an unsupported version'')),
      legacyInfo\<lparr>Version := 0\<rparr>, world0)"
  using UpgradeInfoFile_unsupported_version [of "legacyInfo\<lparr>Version := 0\<rparr>" toyEnv world0]
  by simp

text \<open>
  Claim C8. For every version 1 info file whose legacy salt or legacy confirmation hash is
  not populated (in particular when neither is), migration succeeds without rewrapping:
  the version becomes 3, the key list and every other field stay as they were, and no
  passphrase is asked for.
\<close>

theorem UpgradeInfoFile_v1_without_legacy_fields:
  "Version info = 1 \<Longrightarrow> Salt info = [] \<or> ConfirmationHash info = [] \<Longrightarrow>
   UpgradeInfoFile e info w = (('''', None), info\<lparr>Version := 3\<rparr>, w)"
  by (auto simp add: UpgradeInfoFile_def upgradeInfoFileV1_def)

theorem UpgradeInfoFile_v1_without_legacy_fields_witness:
  "Version (gpgInfo\<lparr>Version := 1\<rparr>) = 1 \<and> Salt (gpgInfo\<lparr>Version := 1\<rparr>) = [] \<and>
   UpgradeInfoFile toyEnv (gpgInfo\<lparr>Version := 1\<rparr>) world0 =
     (('''', None), gpgInfo\<lparr>Version := 3\<rparr>, world0)"
  using UpgradeInfoFile_v1_without_legacy_fields [of "gpgInfo\<lparr>Version := 1\<rparr>" toyEnv world0]
  by (simp add: gpgInfo_def)

text \<open>
  The source takes whatever \<^verbatim>\<open>crypto.NewSalt\<close> returns as the new salt and never compares
  it with the legacy one. With a generator that returns the bytes of the legacy salt, the
  migration of the version 1 info file succeeds and the appended entry carries the legacy
  salt, so it is not true of every successful migration that the new salt differs from
  the legacy salt.
\<close>

theorem UpgradeInfoFile_v1_keeps_stale_salt:
  "Version legacyInfo = 1 \<and> Salt legacyInfo = [5] \<and> ConfirmationHash legacyInfo = [5, 6] \<and>
   UpgradeInfoFile staleSaltEnv legacyInfo world0 =
     (('''', None),
      \<lparr>Version = 3, Salt = [], ConfirmationHash = [],
       Keys = [AsymmetricEntry ''ABCD'' [1, 2], PassphraseEntry [5] [5, 6] [6, 5, 6, 5]]\<rparr>,
      \<lparr>prompt_calls = 1, salt_calls = 1, key_calls = 0\<rparr>)"
  by (simp add: UpgradeInfoFile_def upgradeInfoFileV1_def PromptPassphrase_def NewSalt_def
      AddPassphrase_def ConstantTimeCompare_def staleSaltEnv_def toyEnv_def legacyInfo_def
      world0_def)

text \<open>
  Claim C3, as amended. For every version 1 info file with legacy salt and confirmation
  hash populated, a successful migration has asked for a passphrase that verifies against
  the legacy hash (the correct passphrase), has cleared both legacy fields, and has
  appended exactly one passphrase entry behind the unchanged earlier entries. The salt of
  the new entry is the value the salt generator returned during this migration, and the
  new entry unwraps, with the same passphrase, to the original master key, given that
  unwrapping inverts wrapping.
\<close>

theorem UpgradeInfoFile_v1_rotation:
  assumes "Version info = 1" and "Salt info \<noteq> []" and "ConfirmationHash info \<noteq> []"
    and "UpgradeInfoFile e info w = ((msg, None), info', w')"
    and "\<forall>wk k b. WrapKey e wk k = Inr b \<longrightarrow> UnwrapKey e wk b = Inr k"
  shows "\<exists>passphrase masterKey newSalt newHash wrapped.
     promptui_Run e Validate (prompt_calls w) = Inr passphrase \<and>
     KeyFromPassphrase e passphrase (Salt info) = Inr (masterKey, ConfirmationHash info) \<and>
     NewSalt_src e (salt_calls w) = Inr newSalt \<and>
     Salt info' = [] \<and> ConfirmationHash info' = [] \<and> Version info' = 3 \<and>
     Keys info' = Keys info @ [PassphraseEntry newSalt newHash wrapped] \<and>
     tryPassphraseEntry e passphrase newSalt newHash wrapped = Some (Inr masterKey)"
proof -
  obtain m1 err1 i1 w1 where v1: "upgradeInfoFileV1 e info w = ((m1, err1), i1, w1)"
    by (metis prod.exhaust)
  have "err1 = None" and info': "info' = i1\<lparr>Version := 3\<rparr>"
    using assms(1,4) v1 by (auto simp add: UpgradeInfoFile_def split: option.splits)
  with v1 have "upgradeInfoFileV1 e info w = ((m1, None), i1, w1)" by simp
  from upgradeInfoFileV1_success [OF assms(2,3) this]
  obtain p mk newSalt wk nh wrapped where
    p: "promptui_Run e Validate (prompt_calls w) = Inr p"
    and mk: "KeyFromPassphrase e p (Salt info) = Inr (mk, ConfirmationHash info)"
    and salt: "NewSalt_src e (salt_calls w) = Inr newSalt"
    and wk: "KeyFromPassphrase e p newSalt = Inr (wk, nh)"
    and wrapped: "WrapKey e wk mk = Inr wrapped"
    and i1: "i1 = info\<lparr>Keys := Keys info @ [PassphraseEntry newSalt nh wrapped],
                        Salt := [], ConfirmationHash := []\<rparr>"
    by blast
  have "UnwrapKey e wk wrapped = Inr mk"
    using assms(5) wrapped by blast
  then have "tryPassphraseEntry e p newSalt nh wrapped = Some (Inr mk)"
    using wk by (simp add: tryPassphraseEntry_def ConstantTimeCompare_def)
  then show ?thesis
    using p mk salt info' i1 by auto
qed

theorem UpgradeInfoFile_v1_rotation_witness:
  "\<exists>passphrase masterKey newSalt newHash wrapped.
     promptui_Run toyEnv Validate 0 = Inr passphrase \<and>
     KeyFromPassphrase toyEnv passphrase [5] = Inr (masterKey, [5, 6]) \<and>
     NewSalt_src toyEnv 0 = Inr newSalt \<and>
     Salt (fst (snd (UpgradeInfoFile toyEnv legacyInfo world0))) = [] \<and>
     ConfirmationHash (fst (snd (UpgradeInfoFile toyEnv legacyInfo world0))) = [] \<and>
     Keys (fst (snd (UpgradeInfoFile toyEnv legacyInfo world0))) =
       [AsymmetricEntry ''ABCD'' [1, 2], PassphraseEntry newSalt newHash wrapped] \<and>
     tryPassphraseEntry toyEnv passphrase newSalt newHash wrapped = Some (Inr masterKey)"
proof -
  have run: "UpgradeInfoFile toyEnv legacyInfo world0 =
     (('''', None),
      \<lparr>Version = 3, Salt = [], ConfirmationHash = [],
       Keys = [AsymmetricEntry ''ABCD'' [1, 2], PassphraseEntry [9, 9] [9, 9, 6] [6, 9, 9, 6, 5]]\<rparr>,
      \<lparr>prompt_calls = 1, salt_calls = 1, key_calls = 0\<rparr>)"
    by (simp add: UpgradeInfoFile_def upgradeInfoFileV1_def PromptPassphrase_def NewSalt_def
        AddPassphrase_def ConstantTimeCompare_def toyEnv_def legacyInfo_def world0_def)
  have rt: "\<forall>wk k b. WrapKey toyEnv wk k = Inr b \<longrightarrow> UnwrapKey toyEnv wk b = Inr k"
    by (auto simp add: toyEnv_def)
  have "Version legacyInfo = 1" "Salt legacyInfo \<noteq> []" "ConfirmationHash legacyInfo \<noteq> []"
    by (simp_all add: legacyInfo_def)
  from UpgradeInfoFile_v1_rotation [OF this run rt] show ?thesis
    unfolding run by (simp add: legacyInfo_def world0_def)
qed

section \<open>Repository creation\<close>

text \<open>
  Claim C2, on the code as it is. With a prompt the user interrupts, \<^verbatim>\<open>AddKey\<close> on the
  fresh info file returns the prompt's error; \<^verbatim>\<open>NewInfoFile\<close> then returns a nil info file
  together with an empty message and no error, so the failure does not reach its caller.
\<close>

theorem NewInfoFile_drops_AddKey_error:
  "snd (fst (AddKey interruptedEnv emptyInfo [42] '''' (world0\<lparr>key_calls := 1\<rparr>))) =
     Some (Error ''^C'') \<and>
   fst (NewInfoFile interruptedEnv '''' world0) = (None, '''', None)"
  by (simp add: NewInfoFile_def infofile_New_def NewKey_def AddKey_def addKeyPassphrase_def
      PromptPassphrase_def interruptedEnv_def toyEnv_def world0_def emptyInfo_def)

section \<open>Unlock\<close>

text \<open>
  Claim C4. \<^verbatim>\<open>GetMasterKey\<close> tries the asymmetric entries first: when the entry at index
  \<open>i\<close> unwraps and no asymmetric entry before it does, the call returns that entry's
  master key with its recipient id and asks for no passphrase. When no asymmetric entry
  unwraps, it asks the prompt exactly once, and its result is that of the passphrase
  entries with the passphrase obtained (or the prompt's error).
\<close>

theorem GetMasterKey_gpg_first_then_one_prompt:
  "(i < length (Keys info) \<and> Keys info ! i = AsymmetricEntry recipient blob \<and>
    GPGDecrypt e blob = Inr masterKey \<and>
    (\<forall>j<i. \<forall>r' b'. Keys info ! j = AsymmetricEntry r' b' \<longrightarrow> isl (GPGDecrypt e b'))
    \<longrightarrow> GetMasterKey e info w = ((masterKey, recipient, '''', None), info, w))
   \<and>
   ((\<forall>k\<in>set (Keys info). \<forall>r b. k = AsymmetricEntry r b \<longrightarrow> isl (GPGDecrypt e b))
    \<longrightarrow> prompt_calls (snd (snd (GetMasterKey e info w))) = Suc (prompt_calls w) \<and>
        fst (GetMasterKey e info w) =
          (case promptui_Run e Validate (prompt_calls w) of
             Inl err \<Rightarrow> ([], '''', ''Error getting passphrase'', Some err)
           | Inr passphrase \<Rightarrow> GetMasterKeyWithPassphrase e info passphrase))"
proof (intro conjI impI)
  assume "i < length (Keys info) \<and> Keys info ! i = AsymmetricEntry recipient blob \<and>
    GPGDecrypt e blob = Inr masterKey \<and>
    (\<forall>j<i. \<forall>r' b'. Keys info ! j = AsymmetricEntry r' b' \<longrightarrow> isl (GPGDecrypt e b'))"
  then have "firstGPG e (Keys info) = Some (masterKey, recipient)"
    using firstGPG_first [of i "Keys info" recipient blob e masterKey] by blast
  then show "GetMasterKey e info w = ((masterKey, recipient, '''', None), info, w)"
    by (simp add: GetMasterKey_def GetMasterKeyWithGPG_def)
next
  assume none: "\<forall>k\<in>set (Keys info). \<forall>r b. k = AsymmetricEntry r b \<longrightarrow> isl (GPGDecrypt e b)"
  then have gpg: "firstGPG e (Keys info) = None"
    by (rule firstGPG_none)
  show "prompt_calls (snd (snd (GetMasterKey e info w))) = Suc (prompt_calls w)"
    using gpg by (simp add: GetMasterKey_def GetMasterKeyWithGPG_def PromptPassphrase_def
        split: sum.splits)
  show "fst (GetMasterKey e info w) =
          (case promptui_Run e Validate (prompt_calls w) of
             Inl err \<Rightarrow> ([], '''', ''Error getting passphrase'', Some err)
           | Inr passphrase \<Rightarrow> GetMasterKeyWithPassphrase e info passphrase)"
    using gpg by (simp add: GetMasterKey_def GetMasterKeyWithGPG_def PromptPassphrase_def
        split: sum.splits)
qed

theorem GetMasterKey_gpg_first_then_one_prompt_witness:
  "GetMasterKey gpgEnv gpgInfo world0 = (([6, 5], ''ABCD'', '''', None), gpgInfo, world0) \<and>
   prompt_calls (snd (snd (GetMasterKey toyEnv gpgInfo world0))) = Suc (prompt_calls world0) \<and>
   fst (GetMasterKey toyEnv gpgInfo world0) = GetMasterKeyWithPassphrase toyEnv gpgInfo ''secret''"
proof -
  have first: "2 < length (Keys gpgInfo) \<and> Keys gpgInfo ! 2 = AsymmetricEntry ''ABCD'' [1, 2] \<and>
    GPGDecrypt gpgEnv [1, 2] = Inr [6, 5] \<and>
    (\<forall>j<2. \<forall>r' b'. Keys gpgInfo ! j = AsymmetricEntry r' b' \<longrightarrow> isl (GPGDecrypt gpgEnv b'))"
    by (simp add: gpgInfo_def gpgEnv_def toyEnv_def numeral_2_eq_2 less_Suc_eq)
  have none: "\<forall>k\<in>set (Keys gpgInfo). \<forall>r b. k = AsymmetricEntry r b \<longrightarrow> isl (GPGDecrypt toyEnv b)"
    by (simp add: gpgInfo_def toyEnv_def)
  have prompt: "promptui_Run toyEnv Validate (prompt_calls world0) = Inr ''secret''"
    by (simp add: toyEnv_def)
  show ?thesis
    using GetMasterKey_gpg_first_then_one_prompt
            [of 2 gpgInfo "''ABCD''" "[1, 2]" gpgEnv "[6, 5]" world0]
      GetMasterKey_gpg_first_then_one_prompt [of _ gpgInfo _ _ toyEnv _ world0]
      first none prompt
    by simp
qed

section \<open>Adding keys\<close>

text \<open>
  Claim C5. For every info file and every passphrase that already unlocks it, \<^verbatim>\<open>AddKey\<close>
  with an empty GPG key, the prompt giving that passphrase, fails with the message
  \<^verbatim>\<open>Key already added\<close> and the error that the passphrase has already been added, and
  leaves the info file, hence the length of its key list, unchanged.
\<close>

theorem AddKey_passphrase_duplicate:
  assumes "promptui_Run e Validate (prompt_calls w) = Inr passphrase"
    and "snd (snd (snd (GetMasterKeyWithPassphrase e info passphrase))) = None"
  shows "AddKey e info masterKey '''' w =
     ((''Key already added'',
       Some (Error ''This passphrase has already been added to the repository'')),
      info, w\<lparr>prompt_calls := Suc (prompt_calls w)\<rparr>) \<and>
     length (Keys (fst (snd (AddKey e info masterKey '''' w)))) = length (Keys info)"
proof -
  obtain mk kid m where "GetMasterKeyWithPassphrase e info passphrase = (mk, kid, m, None)"
    using assms(2) by (metis prod.collapse)
  then have "AddKey e info masterKey '''' w =
     ((''Key already added'',
       Some (Error ''This passphrase has already been added to the repository'')),
      info, w\<lparr>prompt_calls := Suc (prompt_calls w)\<rparr>)"
    using assms(1) by (simp add: AddKey_def addKeyPassphrase_def PromptPassphrase_def)
  then show ?thesis by simp
qed

theorem AddKey_passphrase_duplicate_witness:
  "fst (GetMasterKeyWithPassphrase toyEnv gpgInfo ''secret'') = [6, 5] \<and>
   AddKey toyEnv gpgInfo [6, 5] '''' world0 =
     ((''Key already added'',
       Some (Error ''This passphrase has already been added to the repository'')),
      gpgInfo, world0\<lparr>prompt_calls := Suc (prompt_calls world0)\<rparr>) \<and>
   length (Keys (fst (snd (AddKey toyEnv gpgInfo [6, 5] '''' world0)))) = length (Keys gpgInfo)"
proof -
  have prompt: "promptui_Run toyEnv Validate (prompt_calls world0) = Inr ''secret''"
    by (simp add: toyEnv_def)
  have key: "GetMasterKeyWithPassphrase toyEnv gpgInfo ''secret'' = ([6, 5], ''p'', '''', None)"
    by (simp add: GetMasterKeyWithPassphrase_def tryPassphraseEntry_def ConstantTimeCompare_def
        gpgInfo_def toyEnv_def)
  then have unlocks: "snd (snd (snd (GetMasterKeyWithPassphrase toyEnv gpgInfo ''secret''))) = None"
    by simp
  show ?thesis
    using AddKey_passphrase_duplicate [OF prompt unlocks] key by simp
qed

text \<open>
  Claim C6. For every info file and every recipient id (a non-empty GPG key) that equals
  the GPG key of an existing entry up to ASCII case, \<^verbatim>\<open>AddKey\<close> fails with the message
  \<^verbatim>\<open>Key already added\<close> and the error that the GPG key has already been added, and leaves
  the info file unchanged. A recipient id whose lower-cased form is that of no entry is
  wrapped with GPG, and the wrapped key is appended as a new asymmetric entry.
\<close>

theorem AddKey_gpg_duplicate_case_insensitive:
  assumes "gpgKey \<noteq> ''''" and "respectsASCIIFold (unicode_ToLower e)"
  shows "((\<exists>k\<in>set (Keys info). eqFoldASCII (GPGKey k) gpgKey) \<longrightarrow>
      AddKey e info masterKey gpgKey w =
        ((''Key already added'',
          Some (Error ''This GPG key has already been added to the repository'')), info, w))
   \<and> ((\<forall>k\<in>set (Keys info). ToLower e (GPGKey k) \<noteq> ToLower e gpgKey) \<longrightarrow>
      GPGEncrypt e masterKey gpgKey = Inr wrapped \<longrightarrow>
      AddGPGWrappedKey_rejects e info gpgKey wrapped = None \<longrightarrow>
      AddKey e info masterKey gpgKey w =
        (('''', None), info\<lparr>Keys := Keys info @ [AsymmetricEntry gpgKey wrapped]\<rparr>, w))"
proof (intro conjI impI)
  assume "\<exists>k\<in>set (Keys info). eqFoldASCII (GPGKey k) gpgKey"
  then obtain k where "k \<in> set (Keys info)" and "eqFoldASCII (GPGKey k) gpgKey"
    by blast
  then have "list_ex (\<lambda>k. ToLower e (GPGKey k) = ToLower e gpgKey) (Keys info)"
    using eqFoldASCII_ToLower [OF assms(2)] by (auto simp add: list_ex_iff)
  then show "AddKey e info masterKey gpgKey w =
        ((''Key already added'',
          Some (Error ''This GPG key has already been added to the repository'')), info, w)"
    using assms(1) by (simp add: AddKey_def)
next
  assume "\<forall>k\<in>set (Keys info). ToLower e (GPGKey k) \<noteq> ToLower e gpgKey"
    and "GPGEncrypt e masterKey gpgKey = Inr wrapped"
    and "AddGPGWrappedKey_rejects e info gpgKey wrapped = None"
  then show "AddKey e info masterKey gpgKey w =
        (('''', None), info\<lparr>Keys := Keys info @ [AsymmetricEntry gpgKey wrapped]\<rparr>, w)"
    using assms(1)
    by (simp add: AddKey_def addKeyGPG_def AddGPGWrappedKey_def list_ex_iff)
qed

theorem AddKey_gpg_duplicate_case_insensitive_witness:
  "AddKey toyEnv gpgInfo [6, 5] ''abcd'' world0 =
     ((''Key already added'',
       Some (Error ''This GPG key has already been added to the repository'')), gpgInfo, world0) \<and>
   AddKey toyEnv gpgInfo [6, 5] ''ef01'' world0 =
     (('''', None), gpgInfo\<lparr>Keys := Keys gpgInfo @ [AsymmetricEntry ''ef01'' [0, 6, 5]]\<rparr>, world0)"
proof -
  have fold: "respectsASCIIFold (unicode_ToLower toyEnv)"
    by (simp add: toyEnv_def respectsASCIIFold_lowerASCII)
  have dup: "\<exists>k\<in>set (Keys gpgInfo). eqFoldASCII (GPGKey k) ''abcd''"
    using eqFoldASCII_ABCD by (simp add: gpgInfo_def)
  have new: "\<forall>k\<in>set (Keys gpgInfo). ToLower toyEnv (GPGKey k) \<noteq> ToLower toyEnv ''ef01''"
    using ToLower_ABCD_ef01 ToLower_AAAA_ef01 by (simp add: gpgInfo_def ToLower_def isASCII_def)
  have enc: "GPGEncrypt toyEnv [6, 5] ''ef01'' = Inr [0, 6, 5]"
    by (simp add: toyEnv_def)
  have ok: "AddGPGWrappedKey_rejects toyEnv gpgInfo ''ef01'' [0, 6, 5] = None"
    by (simp add: toyEnv_def)
  show ?thesis
    using AddKey_gpg_duplicate_case_insensitive
            [where gpgKey = "''abcd''" and e = toyEnv and info = gpgInfo, OF _ fold]
      AddKey_gpg_duplicate_case_insensitive
            [where gpgKey = "''ef01''" and e = toyEnv and info = gpgInfo
             and masterKey = "[6, 5]" and wrapped = "[0, 6, 5]", OF _ fold]
      dup new enc ok
    by simp
qed

section \<open>The version never decreases\<close>

text \<open>
  Claim C9. Each public operation leaves the version of the info file unchanged or
  increases it: \<^verbatim>\<open>UpgradeInfoFile\<close> leaves a version at least as high as it found,
  \<^verbatim>\<open>AddKey\<close> and \<^verbatim>\<open>GetMasterKey\<close> leave the version they found, whether they succeed or fail.
\<close>

theorem Version_never_decreases:
  "Version info \<le> Version (fst (snd (UpgradeInfoFile e info w))) \<and>
   Version (fst (snd (AddKey e info masterKey gpgKey w))) = Version info \<and>
   Version (fst (snd (GetMasterKey e info w))) = Version info"
proof (intro conjI)
  show "Version info \<le> Version (fst (snd (UpgradeInfoFile e info w)))"
    using upgradeInfoFileV1_Version [of e info w]
    by (auto simp add: UpgradeInfoFile_def split: prod.splits option.splits)
  show "Version (fst (snd (AddKey e info masterKey gpgKey w))) = Version info"
    by (simp add: AddKey_def addKeyPassphrase_Version addKeyGPG_Version Let_def)
  show "Version (fst (snd (GetMasterKey e info w))) = Version info"
    by (simp add: GetMasterKey_def PromptPassphrase_def split: prod.splits option.splits sum.splits)
qed

theorem Version_never_decreases_witness:
  "(1::int) \<le> Version (fst (snd (UpgradeInfoFile toyEnv legacyInfo world0))) \<and>
   Version (fst (snd (AddKey toyEnv legacyInfo [6, 5] ''ef01'' world0))) = 1"
  using Version_never_decreases [of legacyInfo toyEnv world0 "[6, 5]" "''ef01''"]
  by (simp add: legacyInfo_def)

section \<open>The guard of the unlock request handler\<close>

text \<open>
  A request whose type field is the array \<^verbatim>\<open>["passphrase"]\<close>, which is not the string
  \<^verbatim>\<open>"passphrase"\<close>, passes the guard, since the comparison is the loose one: the handler calls
  unlock, assigns the stores, schedules the broadcast and returns a response.
\<close>

theorem unlockHandler_array_type_unlocks:
  "JArr [JStr ''passphrase''] \<noteq> JStr ''passphrase'' \<and>
   unlockHandler toyHost
     (Inr (JObj [(''type'', JArr [JStr ''passphrase'']), (''passphrase'', JStr ''x'')])) sandbox0 =
   (Inr (Some (JSONResponse (JObj [(''keyId'', JStr ''id''), (''type'', JStr ''passphrase'')]))),
    \<lparr>stores_masterKey = JStr ''k'', stores_keyId = JStr ''id'', stores_index = JObj [],
     unlock_calls = [JStr ''x''], broadcasts = [JObj [(''message'', JStr ''unlocked'')]]\<rparr>)"
  by (simp add: unlockHandler_def rejectsRequest_def invalidResult_def toyHost_def sandbox0_def)

text \<open>
  Claim C10, as amended. For every unlock request whose parsed body is falsy, or whose
  type field is not loosely equal to \<^verbatim>\<open>'passphrase'\<close>, or whose type field is loosely equal
  to it while the passphrase field is falsy, the handler returns without a value and
  leaves the sandbox as it was: no call of unlock, no store assigned, no broadcast
  scheduled.
\<close>

theorem unlockHandler_guard_returns_undefined:
  assumes "\<not> truthy data \<or>
     (\<exists>t. getProp data ''type'' = Inr t \<and>
          looseEqualsPassphrase (Number_toString h) t = Inr False) \<or>
     (\<exists>t p. getProp data ''type'' = Inr t \<and>
            looseEqualsPassphrase (Number_toString h) t = Inr True \<and>
            getProp data ''passphrase'' = Inr p \<and> \<not> truthy p)"
  shows "unlockHandler h (Inr data) st = (Inr None, st)"
proof -
  have "rejectsRequest h data = Inr True"
    using assms by (auto simp add: rejectsRequest_def)
  then show ?thesis by (simp add: unlockHandler_def)
qed

theorem unlockHandler_guard_returns_undefined_witness:
  "unlockHandler toyHost (Inr JNull) sandbox0 = (Inr None, sandbox0) \<and>
   unlockHandler toyHost (Inr (JObj [(''passphrase'', JStr ''x'')])) sandbox0 =
     (Inr None, sandbox0) \<and>
   unlockHandler toyHost (Inr (JObj [(''type'', JStr ''gpg''), (''passphrase'', JStr ''x'')]))
     sandbox0 = (Inr None, sandbox0) \<and>
   unlockHandler toyHost (Inr (JObj [(''type'', JStr ''passphrase''), (''passphrase'', JStr '''')]))
     sandbox0 = (Inr None, sandbox0)"
  using unlockHandler_guard_returns_undefined [of JNull toyHost sandbox0]
    unlockHandler_guard_returns_undefined
      [of "JObj [(''passphrase'', JStr ''x'')]" toyHost sandbox0]
    unlockHandler_guard_returns_undefined
      [of "JObj [(''type'', JStr ''gpg''), (''passphrase'', JStr ''x'')]" toyHost sandbox0]
    unlockHandler_guard_returns_undefined
      [of "JObj [(''type'', JStr ''passphrase''), (''passphrase'', JStr '''')]" toyHost sandbox0]
  by simp


end
